theory Spec2Isabelle
  imports Main
begin

section \<open>Exceptions, configuration and the external collaborators\<close>

text \<open>
  The notebook is a linear script over a tensor library, a dataset library and a
  tokenizer library. Every Python exception is a value of \<open>error\<close>; a computation that
  may raise and that reads or writes interpreter state returns a pair of
  \<open>error + result\<close> and the state reached, so that the state at the moment of the raise
  is kept.
\<close>

datatype error =
    RuntimeError string
  | NameError string
  | KeyError string
  | IndexError
  | AttributeError string
  | ValueError string
  | AssertionError string
  | LibraryError string

text \<open>The dataclass \<open>GazelleConfig\<close>: five Python integers, no validation.\<close>

record GazelleConfig =
  n_layer :: int
  n_embd :: int
  n_head :: int
  vocab_size :: int
  ctx_len :: int

definition GazelleConfig_default :: GazelleConfig where
  "GazelleConfig_default =
     \<lparr>n_layer = 12, n_embd = 1536, n_head = 24, vocab_size = 65536, ctx_len = 512\<rparr>"

text \<open>
  \<open>GazelleModel\<close>: the four attributes assigned by \<open>__init__\<close>, each a library module
  (type \<open>'m\<close>: the module with its parameter tensors), and the \<open>training\<close> flag that
  \<open>nn.Module\<close> keeps (\<open>True\<close> after construction, cleared by \<open>model.eval()\<close>).
\<close>

record 'm GazelleModel =
  embedding :: 'm
  layers :: "'m list"
  ln_f :: 'm
  head :: 'm
  training :: bool

text \<open>
  The pretrained tokenizer object, with the two ways the notebook calls it.
  \<open>tokenize\<close> is the plain call \<open>tokenizer(text).input_ids\<close>, with no option that
  bounds or fills the result. \<open>tokenize_max_length text n\<close> is the call with
  \<open>truncation=True\<close>, \<open>padding='max_length'\<close> and \<open>max_length=n\<close>; what the
  library returns for these options is its own affair and is not fixed here. Token ids
  are vocabulary indices, hence natural numbers; \<open>eos_token_id\<close> may be \<open>None\<close>.
\<close>

record pretrained_tokenizer =
  tokenize :: "string \<Rightarrow> error + nat list"
  tokenize_max_length :: "string \<Rightarrow> int \<Rightarrow> error + nat list"
  decode :: "nat list \<Rightarrow> string"
  eos_token_id :: "nat option"

text \<open>A dataset record is a Python dict from field names to text.\<close>

type_synonym example = "string \<rightharpoonup> string"

text \<open>
  Everything the notebook calls and does not define. The type variables stand for the
  library's own data: \<open>'m\<close> a module with its parameters, \<open>'a\<close> a tensor element
  (a float, of which only the order is used), \<open>'r\<close> the state of a random generator,
  \<open>'g\<close> the gradients stored in the \<open>.grad\<close> slots, \<open>'o\<close> the optimizer's moments.
  A tensor of shape (sequence, width) is a list of rows; the batch dimension, which is
  1 everywhere in the notebook, is left out, and so are the transfers to the device.
  A layer has two entries: in training mode it draws dropout masks from the generator,
  in evaluation mode it is a function of its parameters and its input. A forward pass
  reads the parameters and returns activations; the parameters are rewritten by
  \<open>AdamW_step\<close> alone, from the gradients that \<open>backward\<close> stores.
\<close>

record ('m, 'a, 'r, 'g, 'o) env =
  cuda_is_available :: bool
  cuda_get_device_name :: string
  torch_manual_seed :: "int \<Rightarrow> 'r"
  np_random_seed :: "int \<Rightarrow> 'r"
  load_dataset :: "error + example list"
  from_pretrained :: "error + pretrained_tokenizer"
  nn_Embedding :: "int \<Rightarrow> int \<Rightarrow> 'r \<Rightarrow> (error + 'm) \<times> 'r"
  nn_TransformerEncoderLayer :: "int \<Rightarrow> int \<Rightarrow> 'r \<Rightarrow> (error + 'm) \<times> 'r"
  nn_LayerNorm :: "int \<Rightarrow> 'r \<Rightarrow> (error + 'm) \<times> 'r"
  nn_Linear :: "int \<Rightarrow> int \<Rightarrow> 'r \<Rightarrow> (error + 'm) \<times> 'r"
  embedding_fwd :: "'m \<Rightarrow> nat list \<Rightarrow> error + 'a list list"
  encoder_eval :: "'m \<Rightarrow> 'a list list \<Rightarrow> error + 'a list list"
  encoder_train :: "'m \<Rightarrow> 'a list list \<Rightarrow> 'r \<Rightarrow> (error + 'a list list) \<times> 'r"
  layernorm_fwd :: "'m \<Rightarrow> 'a list list \<Rightarrow> error + 'a list list"
  linear_fwd :: "'m \<Rightarrow> 'a list list \<Rightarrow> error + 'a list list"
  cross_entropy :: "'a list list \<Rightarrow> nat list \<Rightarrow> error + 'a"
  backward :: "'m GazelleModel \<Rightarrow> 'r \<Rightarrow> nat list \<Rightarrow> nat list \<Rightarrow> 'g option \<Rightarrow> error + 'g"
  AdamW :: "'m GazelleModel \<Rightarrow> 'o"
  AdamW_step :: "'o \<Rightarrow> 'm GazelleModel \<Rightarrow> 'g option \<Rightarrow> error + ('m GazelleModel \<times> 'o)"
  format_4f :: "'a \<Rightarrow> string"

section \<open>The sequence model\<close>

text \<open>
  \<open>GazelleModel.forward\<close>: embedding, the layers in order, the final normalisation,
  the output head. The first exception ends the pass.
\<close>

definition call_layer ::
  "('m, 'a, 'r, 'g, 'o) env \<Rightarrow> bool \<Rightarrow> 'm \<Rightarrow> 'a list list \<Rightarrow> 'r \<Rightarrow> (error + 'a list list) \<times> 'r" where
  "call_layer E train l x r = (if train then encoder_train E l x r else (encoder_eval E l x, r))"

fun layers_fwd ::
  "('m, 'a, 'r, 'g, 'o) env \<Rightarrow> bool \<Rightarrow> 'm list \<Rightarrow> 'a list list \<Rightarrow> 'r \<Rightarrow> (error + 'a list list) \<times> 'r" where
  "layers_fwd E train [] x r = (Inr x, r)"
| "layers_fwd E train (l # ls) x r =
     (case call_layer E train l x r of
        (Inl e, r') \<Rightarrow> (Inl e, r')
      | (Inr x', r') \<Rightarrow> layers_fwd E train ls x' r')"

definition GazelleModel_forward ::
  "('m, 'a, 'r, 'g, 'o) env \<Rightarrow> 'm GazelleModel \<Rightarrow> nat list \<Rightarrow> 'r \<Rightarrow> (error + 'a list list) \<times> 'r" where
  "GazelleModel_forward E m ids r =
     (case embedding_fwd E (embedding m) ids of
        Inl e \<Rightarrow> (Inl e, r)
      | Inr x \<Rightarrow>
          (case layers_fwd E (training m) (layers m) x r of
             (Inl e, r') \<Rightarrow> (Inl e, r')
           | (Inr x', r') \<Rightarrow>
               (case layernorm_fwd E (ln_f m) x' of
                  Inl e \<Rightarrow> (Inl e, r')
                | Inr x'' \<Rightarrow> (linear_fwd E (head m) x'', r'))))"

section \<open>Greedy decoding\<close>

text \<open>
  \<open>torch.argmax\<close> along the last dimension: the index of the first maximal entry
  (the library documents that tie-break); an empty row raises.
\<close>

fun argmax_from :: "nat \<Rightarrow> 'a::linorder \<Rightarrow> nat \<Rightarrow> 'a list \<Rightarrow> nat" where
  "argmax_from bi bv i [] = bi"
| "argmax_from bi bv i (x # xs) =
     (if bv < x then argmax_from i x (Suc i) xs else argmax_from bi bv (Suc i) xs)"

definition argmax :: "'a::linorder list \<Rightarrow> error + nat" where
  "argmax row = (case row of [] \<Rightarrow> Inl IndexError | x # xs \<Rightarrow> Inr (argmax_from 0 x 1 xs))"

text \<open>\<open>logits[:, -1]\<close>: the row of the last position; none on an empty sequence.\<close>

definition last_position :: "'a list list \<Rightarrow> error + 'a list" where
  "last_position logits = (if logits = [] then Inl IndexError else Inr (last logits))"

text \<open>The first two statements of the loop body: \<open>model(ids)\<close> and the argmax.\<close>

definition next_token ::
  "('m, 'a::linorder, 'r, 'g, 'o) env \<Rightarrow> 'm GazelleModel \<Rightarrow> nat list \<Rightarrow> 'r \<Rightarrow> (error + nat) \<times> 'r" where
  "next_token E m ids r =
     (case GazelleModel_forward E m ids r of
        (Inl e, r') \<Rightarrow> (Inl e, r')
      | (Inr logits, r') \<Rightarrow>
          (case last_position logits of
             Inl e \<Rightarrow> (Inl e, r')
           | Inr row \<Rightarrow> (argmax row, r')))"

text \<open>
  One pass of the loop body: the new sequence and whether the \<open>break\<close> is taken.
  \<open>next_id.item() == tokenizer.eos_token_id\<close> is false when the tokenizer has no
  end-of-sequence id.
\<close>

definition gen_step ::
  "('m, 'a::linorder, 'r, 'g, 'o) env \<Rightarrow> 'm GazelleModel \<Rightarrow> nat option \<Rightarrow> nat list \<Rightarrow> 'r
     \<Rightarrow> (error + nat list \<times> bool) \<times> 'r" where
  "gen_step E m eos ids r =
     (case next_token E m ids r of
        (Inl e, r') \<Rightarrow> (Inl e, r')
      | (Inr next_id, r') \<Rightarrow> (Inr (ids @ [next_id], Some next_id = eos), r'))"

text \<open>\<open>for _ in range(max_new_tokens)\<close>: at most \<open>n\<close> passes, ended early by the \<open>break\<close>.\<close>

fun gen_loop ::
  "('m, 'a::linorder, 'r, 'g, 'o) env \<Rightarrow> 'm GazelleModel \<Rightarrow> nat option \<Rightarrow> nat \<Rightarrow> nat list \<Rightarrow> 'r
     \<Rightarrow> (error + nat list) \<times> 'r" where
  "gen_loop E m eos 0 ids r = (Inr ids, r)"
| "gen_loop E m eos (Suc n) ids r =
     (case gen_step E m eos ids r of
        (Inl e, r') \<Rightarrow> (Inl e, r')
      | (Inr (ids', stop), r') \<Rightarrow> if stop then (Inr ids', r') else gen_loop E m eos n ids' r')"


section \<open>The interpreter state\<close>

text \<open>
  The optimizer object: the moments kept by AdamW, and the number of times
  \<open>optimizer.step()\<close> has run on it (AdamW keeps that count itself, per parameter).
\<close>

record 'o optimizer_obj =
  moments :: 'o
  step_calls :: nat

text \<open>
  The global names the cells assign, \<open>None\<close> while a name is unbound (reading it then
  raises \<open>NameError\<close>), the two random generators the first cell seeds, the standard
  output (one entry per \<open>print\<close>), and the \<open>.grad\<close> slots of the model's parameters.
  \<open>dataset_enc\<close> holds the \<open>input_ids\<close> column that \<open>dataset.map(encode)\<close> adds.
\<close>

record ('m, 'r, 'g, 'o) globals =
  torch_rng :: 'r
  numpy_rng :: 'r
  stdout :: "string list"
  dataset :: "example list option"
  config :: "GazelleConfig option"
  model :: "'m GazelleModel option"
  grad :: "'g option"
  tokenizer :: "pretrained_tokenizer option"
  dataset_enc :: "nat list list option"
  optimizer :: "'o optimizer_obj option"

definition fresh_kernel :: "'r \<Rightarrow> 'r \<Rightarrow> ('m, 'r, 'g, 'o) globals" where
  "fresh_kernel r0 r1 =
     \<lparr>torch_rng = r0, numpy_rng = r1, stdout = [], dataset = None, config = None,
      model = None, grad = None, tokenizer = None, dataset_enc = None, optimizer = None\<rparr>"

section \<open>\<open>generate\<close>\<close>

text \<open>
  \<open>generate\<close> up to the end of its loop: \<open>model.eval()\<close> clears the training flag of
  the global model, the prompt is tokenized by the plain tokenizer call, and the loop
  runs \<open>max_new_tokens\<close> times at most (\<open>range\<close> of a negative number is empty).
  Under \<open>torch.no_grad()\<close> no gradient is recorded, and the function has no
  \<open>backward\<close> and no optimizer call. Nothing in the function assigns \<open>model\<close> or
  \<open>tokenizer\<close>, so every pass of the loop reads the objects found at its start.
\<close>

definition generate_ids ::
  "('m, 'a::linorder, 'r, 'g, 'o) env \<Rightarrow> string \<Rightarrow> int \<Rightarrow> ('m, 'r, 'g, 'o) globals
     \<Rightarrow> (error + nat list) \<times> ('m, 'r, 'g, 'o) globals" where
  "generate_ids E prompt max_new_tokens st =
     (case model st of
        None \<Rightarrow> (Inl (NameError ''model''), st)
      | Some m \<Rightarrow>
          (let m' = m\<lparr>training := False\<rparr>; st1 = st\<lparr>model := Some m'\<rparr> in
           case tokenizer st1 of
             None \<Rightarrow> (Inl (NameError ''tokenizer''), st1)
           | Some tk \<Rightarrow>
               (case tokenize tk prompt of
                  Inl e \<Rightarrow> (Inl e, st1)
                | Inr ids \<Rightarrow>
                    (case gen_loop E m' (eos_token_id tk) (nat max_new_tokens) ids (torch_rng st1) of
                       (res, r') \<Rightarrow> (res, st1\<lparr>torch_rng := r'\<rparr>)))))"

text \<open>The whole function: the accumulated ids are decoded back to text.\<close>

definition generate ::
  "('m, 'a::linorder, 'r, 'g, 'o) env \<Rightarrow> string \<Rightarrow> int \<Rightarrow> ('m, 'r, 'g, 'o) globals
     \<Rightarrow> (error + string) \<times> ('m, 'r, 'g, 'o) globals" where
  "generate E prompt max_new_tokens st =
     (case generate_ids E prompt max_new_tokens st of
        (Inl e, st') \<Rightarrow> (Inl e, st')
      | (Inr ids, st') \<Rightarrow>
          (case tokenizer st' of
             None \<Rightarrow> (Inl (NameError ''tokenizer''), st')
           | Some tk \<Rightarrow> (Inr (decode tk ids), st')))"

text \<open>The parameter tensors of a model: everything but the mode flag.\<close>

definition weights :: "'m GazelleModel \<Rightarrow> 'm \<times> 'm list \<times> 'm \<times> 'm" where
  "weights m = (embedding m, layers m, ln_f m, head m)"

section \<open>Model construction\<close>

text \<open>
  \<open>GazelleModel.__init__\<close>: the embedding, \<open>n_layer\<close> encoder layers (none when
  \<open>n_layer\<close> is zero or negative), the normalisation and the head, in that order; each
  constructor draws its initial weights from the generator and may raise. The notebook's
  own code checks nothing.
\<close>

fun make_layers ::
  "('m, 'a, 'r, 'g, 'o) env \<Rightarrow> int \<Rightarrow> int \<Rightarrow> nat \<Rightarrow> 'r \<Rightarrow> (error + 'm list) \<times> 'r" where
  "make_layers E d h 0 r = (Inr [], r)"
| "make_layers E d h (Suc n) r =
     (case nn_TransformerEncoderLayer E d h r of
        (Inl e, r') \<Rightarrow> (Inl e, r')
      | (Inr l, r') \<Rightarrow>
          (case make_layers E d h n r' of
             (Inl e, r'') \<Rightarrow> (Inl e, r'')
           | (Inr ls, r'') \<Rightarrow> (Inr (l # ls), r'')))"

definition GazelleModel_init ::
  "('m, 'a, 'r, 'g, 'o) env \<Rightarrow> GazelleConfig \<Rightarrow> 'r \<Rightarrow> (error + 'm GazelleModel) \<times> 'r" where
  "GazelleModel_init E cfg r =
     (case nn_Embedding E (vocab_size cfg) (n_embd cfg) r of
        (Inl e, r1) \<Rightarrow> (Inl e, r1)
      | (Inr emb, r1) \<Rightarrow>
          (case make_layers E (n_embd cfg) (n_head cfg) (nat (n_layer cfg)) r1 of
             (Inl e, r2) \<Rightarrow> (Inl e, r2)
           | (Inr ls, r2) \<Rightarrow>
               (case nn_LayerNorm E (n_embd cfg) r2 of
                  (Inl e, r3) \<Rightarrow> (Inl e, r3)
                | (Inr ln, r3) \<Rightarrow>
                    (case nn_Linear E (n_embd cfg) (vocab_size cfg) r3 of
                       (Inl e, r4) \<Rightarrow> (Inl e, r4)
                     | (Inr lin, r4) \<Rightarrow>
                         (Inr \<lparr>embedding = emb, layers = ls, ln_f = ln, head = lin,
                               training = True\<rparr>, r4)))))"

section \<open>Training\<close>

text \<open>
  \<open>encode\<close>: the text of the record goes to the tokenizer with truncation and padding
  to \<open>config.ctx_len\<close> asked for; a record without the field raises.
\<close>

definition encode :: "pretrained_tokenizer \<Rightarrow> GazelleConfig \<Rightarrow> example \<Rightarrow> error + nat list" where
  "encode tk cfg ex =
     (case ex ''text'' of
        None \<Rightarrow> Inl (KeyError ''text'')
      | Some text \<Rightarrow> tokenize_max_length tk text (ctx_len cfg))"

text \<open>\<open>dataset.map(encode)\<close> encodes every record before training starts.\<close>

fun map_encode ::
  "pretrained_tokenizer \<Rightarrow> GazelleConfig \<Rightarrow> example list \<Rightarrow> error + nat list list" where
  "map_encode tk cfg [] = Inr []"
| "map_encode tk cfg (ex # exs) =
     (case encode tk cfg ex of
        Inl e \<Rightarrow> Inl e
      | Inr ids \<Rightarrow>
          (case map_encode tk cfg exs of
             Inl e \<Rightarrow> Inl e
           | Inr rest \<Rightarrow> Inr (ids # rest)))"

text \<open>
  What \<open>batch['input_ids']\<close> can be: a tensor of one row of ids, which has the method
  \<open>cuda\<close>, or a Python list of one-element tensors, one per position, which has not.
\<close>

datatype batch_ids = Tensor "nat list" | PyList "nat list"

definition cuda :: "batch_ids \<Rightarrow> error + nat list" where
  "cuda b = (case b of Tensor ids \<Rightarrow> Inr ids | PyList ids \<Rightarrow> Inl (AttributeError ''cuda''))"

text \<open>
  \<open>DataLoader(dataset_enc, batch_size=1)\<close>. No tensor format is set on the encoded
  dataset, so a row comes back as a Python list of integers, and the default collation
  of a one-row batch of such lists is a list with one tensor per position, not a tensor.
\<close>

definition DataLoader :: "nat list list \<Rightarrow> batch_ids list" where
  "DataLoader rows = map PyList rows"

text \<open>Decimal digits of a loop index, as an f-string prints it.\<close>

fun str_nat :: "nat \<Rightarrow> string" where
  "str_nat n =
     (if n < 10 then [char_of (48 + n)]
      else str_nat (n div 10) @ [char_of (48 + n mod 10)])"

text \<open>
  The body of the training loop after the \<open>break\<close> test. Its first statement calls
  \<open>cuda\<close> on the batch entry and raises when there is no such method. The loss compares
  the logits with \<open>input_ids\<close> itself: \<open>logits.view(-1, V)\<close> and \<open>input_ids.view(-1)\<close> are the rows
  and the ids in their own order, row \<open>i\<close> against id \<open>i\<close>. The gradient is a function
  of the model, the generator state the forward pass started from, the input and the
  targets; it is added to the stored one. \<open>optimizer.step()\<close> rewrites the parameters,
  \<open>optimizer.zero_grad()\<close> empties the slots.
\<close>

definition train_step ::
  "('m, 'a, 'r, 'g, 'o) env \<Rightarrow> nat \<Rightarrow> batch_ids \<Rightarrow> ('m, 'r, 'g, 'o) globals
     \<Rightarrow> error option \<times> ('m, 'r, 'g, 'o) globals" where
  "train_step E i batch st =
     (case cuda batch of
        Inl e \<Rightarrow> (Some e, st)
      | Inr input_ids \<Rightarrow>
     (case model st of
        None \<Rightarrow> (Some (NameError ''model''), st)
      | Some m \<Rightarrow>
          (case GazelleModel_forward E m input_ids (torch_rng st) of
             (Inl e, r') \<Rightarrow> (Some e, st\<lparr>torch_rng := r'\<rparr>)
           | (Inr logits, r') \<Rightarrow>
               (let st1 = st\<lparr>torch_rng := r'\<rparr> in
                case cross_entropy E logits input_ids of
                  Inl e \<Rightarrow> (Some e, st1)
                | Inr loss \<Rightarrow>
                    (case backward E m (torch_rng st) input_ids input_ids (grad st1) of
                       Inl e \<Rightarrow> (Some e, st1)
                     | Inr g \<Rightarrow>
                         (let st2 = st1\<lparr>grad := Some g\<rparr> in
                          case optimizer st2 of
                            None \<Rightarrow> (Some (NameError ''optimizer''), st2)
                          | Some opt \<Rightarrow>
                              (case AdamW_step E (moments opt) m (Some g) of
                                 Inl e \<Rightarrow> (Some e, st2)
                               | Inr (m', mo') \<Rightarrow>
                                   (let st3 = st2\<lparr>model := Some (m'\<lparr>training := training m\<rparr>),
                                                   optimizer := Some \<lparr>moments = mo',
                                                     step_calls = Suc (step_calls opt)\<rparr>\<rparr>;
                                        st4 = st3\<lparr>grad := None\<rparr>
                                    in (None,
                                        if i mod 5 = 0
                                        then st4\<lparr>stdout := stdout st4 @
                                               [''step '' @ str_nat i @ '' loss '' @ format_4f E loss]\<rparr>
                                        else st4)))))))))"

text \<open>
  \<open>for i, batch in enumerate(loader): if i > cap: break; ...\<close> with the notebook's
  literal 10 as the parameter \<open>cap\<close>. The loop ends when the loader is exhausted, when the
  index exceeds \<open>cap\<close>, or when a step raises.
\<close>

fun train_loop ::
  "('m, 'a, 'r, 'g, 'o) env \<Rightarrow> int \<Rightarrow> nat \<Rightarrow> batch_ids list \<Rightarrow> ('m, 'r, 'g, 'o) globals
     \<Rightarrow> error option \<times> ('m, 'r, 'g, 'o) globals" where
  "train_loop E cap i [] st = (None, st)"
| "train_loop E cap i (batch # rest) st =
     (if int i > cap then (None, st)
      else (case train_step E i batch st of
              (Some e, st') \<Rightarrow> (Some e, st')
            | (None, st') \<Rightarrow> train_loop E cap (Suc i) rest st'))"

text \<open>The number of optimizer updates a state has seen (none without an optimizer).\<close>

definition updates :: "('m, 'r, 'g, 'o) globals \<Rightarrow> nat" where
  "updates st = (case optimizer st of None \<Rightarrow> 0 | Some opt \<Rightarrow> step_calls opt)"


section \<open>The cells of the notebook\<close>

text \<open>A cell is a statement: it ends normally or with an exception, in a new state.\<close>

type_synonym ('m, 'r, 'g, 'o) cell =
  "('m, 'r, 'g, 'o) globals \<Rightarrow> error option \<times> ('m, 'r, 'g, 'o) globals"

text \<open>
  The first code cell, the environment guard: with a device, print its name and seed
  the two generators with 42; without one, raise.
\<close>

definition env_guard :: "('m, 'a, 'r, 'g, 'o) env \<Rightarrow> ('m, 'r, 'g, 'o) cell" where
  "env_guard E st =
     (if cuda_is_available E
      then (None, st\<lparr>stdout := stdout st @ [''GPU: '' @ cuda_get_device_name E],
                      torch_rng := torch_manual_seed E 42,
                      numpy_rng := np_random_seed E 42\<rparr>)
      else (Some (RuntimeError ''GPU required''), st))"

text \<open>
  The shell line \<open>!pip install -q ...\<close> and the cell that defines the two classes bind
  no name read later and print nothing.
\<close>

definition cell_install :: "('m, 'r, 'g, 'o) cell" where
  "cell_install st = (None, st)"

definition cell_classes :: "('m, 'r, 'g, 'o) cell" where
  "cell_classes st = (None, st)"

definition cell_load_dataset :: "('m, 'a, 'r, 'g, 'o) env \<Rightarrow> ('m, 'r, 'g, 'o) cell" where
  "cell_load_dataset E st =
     (let st1 = st\<lparr>stdout := stdout st @
                  [''Loading Dolphin Distill dataset'' @ [CHR 0xE2, CHR 0x80, CHR 0xA6]]\<rparr> in
      case load_dataset E of
        Inl e \<Rightarrow> (Some e, st1)
      | Inr ds \<Rightarrow>
          (None, st1\<lparr>dataset := Some ds,
                      stdout := stdout st1 @ [''Dataset size: '' @ str_nat (length ds)]\<rparr>))"

text \<open>
  The training cell: default configuration, model, tokenizer, encoded dataset, loader,
  optimizer, then the loop with the literal 10. A newly built model has empty \<open>.grad\<close> slots.
\<close>

definition cell_train :: "('m, 'a, 'r, 'g, 'o) env \<Rightarrow> ('m, 'r, 'g, 'o) cell" where
  "cell_train E st =
     (let cfg = GazelleConfig_default; st1 = st\<lparr>config := Some cfg\<rparr> in
      case GazelleModel_init E cfg (torch_rng st1) of
        (Inl e, r) \<Rightarrow> (Some e, st1\<lparr>torch_rng := r\<rparr>)
      | (Inr m, r) \<Rightarrow>
          (let st2 = st1\<lparr>torch_rng := r, model := Some m, grad := None\<rparr> in
           case from_pretrained E of
             Inl e \<Rightarrow> (Some e, st2)
           | Inr tk \<Rightarrow>
               (let st3 = st2\<lparr>tokenizer := Some tk\<rparr> in
                case dataset st3 of
                  None \<Rightarrow> (Some (NameError ''dataset''), st3)
                | Some ds \<Rightarrow>
                    (case map_encode tk cfg ds of
                       Inl e \<Rightarrow> (Some e, st3)
                     | Inr enc \<Rightarrow>
                         train_loop E 10 0 (DataLoader enc)
                           (st3\<lparr>dataset_enc := Some enc,
                                 optimizer := Some \<lparr>moments = AdamW E m, step_calls = 0\<rparr>\<rparr>)))))"

text \<open>The last cell: \<open>print(generate('Hello world'))\<close>, with the default of 50 new tokens.\<close>

definition cell_generate :: "('m, 'a::linorder, 'r, 'g, 'o) env \<Rightarrow> ('m, 'r, 'g, 'o) cell" where
  "cell_generate E st =
     (case generate E ''Hello world'' 50 st of
        (Inl e, st') \<Rightarrow> (Some e, st')
      | (Inr text, st') \<Rightarrow> (None, st'\<lparr>stdout := stdout st' @ [text]\<rparr>))"

text \<open>Cells run top to bottom; the first exception stops the run.\<close>

fun run_cells :: "('m, 'r, 'g, 'o) cell list \<Rightarrow> ('m, 'r, 'g, 'o) cell" where
  "run_cells [] st = (None, st)"
| "run_cells (c # cs) st =
     (case c st of
        (Some e, st') \<Rightarrow> (Some e, st')
      | (None, st') \<Rightarrow> run_cells cs st')"

definition notebook :: "('m, 'a::linorder, 'r, 'g, 'o) env \<Rightarrow> ('m, 'r, 'g, 'o) cell" where
  "notebook E =
     run_cells [env_guard E, cell_install, cell_load_dataset E, cell_classes,
                cell_train E, cell_generate E]"

section \<open>A small concrete environment\<close>

text \<open>
  A toy instance of the collaborators on which the definitions can be evaluated: four
  token ids, a model whose evaluation-mode logits at a position holding id \<open>t\<close> put
  their maximum on \<open>(t + 1) mod 4\<close>, a tokenizer that cuts a longer text to a positive
  \<open>max_length\<close> and fills a shorter, non-empty one with id 0, layers whose training mode
  shifts the activations by the generator state, a loss that counts the positions whose
  argmax differs from the target, and an encoder-layer constructor with the library's
  divisibility check.
\<close>

definition toy_ids :: "string \<Rightarrow> nat list" where
  "toy_ids s = map (\<lambda>c. if c = CHR ''a'' then 0 else if c = CHR ''b'' then 1 else 2) s"

definition toy_tokenizer :: pretrained_tokenizer where
  "toy_tokenizer =
     \<lparr>tokenize = (\<lambda>s. Inr (toy_ids s)),
      tokenize_max_length = (\<lambda>s n.
         if toy_ids s = [] then Inr []
         else Inr (take (if 0 < n then nat n else length s) (toy_ids s) @
                   replicate (nat n - length s) 0)),
      decode = map (\<lambda>t. if t = 0 then CHR ''a'' else if t = 1 then CHR ''b''
                         else if t = 2 then CHR ''c'' else CHR ''.''),
      eos_token_id = Some 3\<rparr>"

definition toy_logits :: "int list \<Rightarrow> int list" where
  "toy_logits row = map (\<lambda>j. if int j = (sum_list row + 1) mod 4 then 1 else 0) [0, 1, 2, 3]"

definition toy_loss :: "int list list \<Rightarrow> nat list \<Rightarrow> error + int" where
  "toy_loss rows targets =
     (if length rows \<noteq> length targets then Inl (ValueError ''shape'')
      else Inr (int (length (filter (\<lambda>(row, t). argmax row \<noteq> Inr t) (zip rows targets)))))"

definition toy_env :: "bool \<Rightarrow> (nat, int, nat, nat, nat) env" where
  "toy_env gpu =
     \<lparr>cuda_is_available = gpu,
      cuda_get_device_name = ''toy'',
      torch_manual_seed = nat,
      np_random_seed = nat,
      load_dataset = Inr [[''text'' \<mapsto> ''ab''], [''text'' \<mapsto> ''bcab''], [''text'' \<mapsto> []]],
      from_pretrained = Inr toy_tokenizer,
      nn_Embedding = (\<lambda>v d r. (Inr r, Suc r)),
      nn_TransformerEncoderLayer = (\<lambda>d h r.
         if h = 0 \<or> d mod h \<noteq> 0
         then (Inl (AssertionError ''embed_dim must be divisible by num_heads''), r)
         else (Inr r, Suc r)),
      nn_LayerNorm = (\<lambda>d r. (Inr r, Suc r)),
      nn_Linear = (\<lambda>d v r. (Inr r, Suc r)),
      embedding_fwd = (\<lambda>m ids. Inr (map (\<lambda>t. [int t]) ids)),
      encoder_eval = (\<lambda>m x. Inr x),
      encoder_train = (\<lambda>m x r. (Inr (map (map (\<lambda>v. v + int r)) x), Suc r)),
      layernorm_fwd = (\<lambda>m x. Inr x),
      linear_fwd = (\<lambda>m x. Inr (map toy_logits x)),
      cross_entropy = toy_loss,
      backward = (\<lambda>m r ids tgt g. Inr (case g of None \<Rightarrow> 1 | Some k \<Rightarrow> Suc k)),
      AdamW = (\<lambda>m. 0),
      AdamW_step = (\<lambda>mo m g. Inr (m\<lparr>head := Suc (head m)\<rparr>, Suc mo)),
      format_4f = (\<lambda>x. str_nat (nat x))\<rparr>"

definition toy_model :: "nat GazelleModel" where
  "toy_model = \<lparr>embedding = 0, layers = [1], ln_f = 2, head = 3, training = True\<rparr>"

definition toy_state :: "nat \<Rightarrow> (nat, nat, nat, nat) globals" where
  "toy_state r =
     (fresh_kernel r 0)\<lparr>model := Some toy_model, tokenizer := Some toy_tokenizer,
                        config := Some (GazelleConfig_default\<lparr>ctx_len := 2\<rparr>)\<rparr>"

text \<open>The toy state as the training cell leaves it before its loop: an optimizer, no update yet.\<close>

definition toy_train_state :: "(nat, nat, nat, nat) globals" where
  "toy_train_state = (toy_state 0)\<lparr>optimizer := Some \<lparr>moments = 0, step_calls = 0\<rparr>\<rparr>"

definition toy_bad_config :: GazelleConfig where
  "toy_bad_config = GazelleConfig_default\<lparr>n_embd := 10, n_head := 3\<rparr>"

section \<open>Facts about the library model and the decoding loop\<close>

text \<open>
  \<open>argmax_from\<close> scans left to right and keeps the first strict maximum seen so far.
\<close>

lemma argmax_from_spec:
  assumes "length pre = i" "bi < i" "pre ! bi = bv"
    "\<forall>j<i. pre ! j \<le> bv" "\<forall>j<bi. pre ! j < bv"
  shows "argmax_from bi bv i xs < i + length xs \<and>
         (\<forall>j < i + length xs. (pre @ xs) ! j \<le> (pre @ xs) ! argmax_from bi bv i xs) \<and>
         (\<forall>j < argmax_from bi bv i xs. (pre @ xs) ! j < (pre @ xs) ! argmax_from bi bv i xs)"
  using assms
proof (induction xs arbitrary: pre bi bv i)
  case Nil
  then show ?case by simp
next
  case (Cons x xs)
  let ?pre = "pre @ [x]"
  have len: "length ?pre = Suc i" using Cons.prems(1) by simp
  show ?case
  proof (cases "bv < x")
    case True
    have a: "?pre ! i = x" using Cons.prems(1) by (auto simp: nth_append)
    have b: "\<forall>j<Suc i. ?pre ! j \<le> x"
      using Cons.prems(1,4) True by (auto simp: nth_append less_Suc_eq)
    have c: "\<forall>j<i. ?pre ! j < x"
      using Cons.prems(1,4) True by (auto simp: nth_append)
    from Cons.IH[OF len _ a b c] True show ?thesis by simp
  next
    case False
    have a: "?pre ! bi = bv" using Cons.prems(1,2,3) by (simp add: nth_append)
    have b: "\<forall>j<Suc i. ?pre ! j \<le> bv"
      using Cons.prems(1,4) False by (auto simp: nth_append less_Suc_eq)
    have c: "\<forall>j<bi. ?pre ! j < bv"
      using Cons.prems(1,2,5) by (auto simp: nth_append)
    have d: "bi < Suc i" using Cons.prems(2) by simp
    from Cons.IH[OF len d a b c] False show ?thesis by simp
  qed
qed

lemma argmax_spec:
  assumes "row \<noteq> []"
  shows "\<exists>t. argmax row = Inr t \<and> t < length row \<and>
           (\<forall>j < length row. row ! j \<le> row ! t) \<and> (\<forall>j < t. row ! j < row ! t)"
proof -
  from assms obtain x xs where row: "row = x # xs" by (cases row) auto
  have "argmax_from 0 x 1 xs < 1 + length xs \<and>
         (\<forall>j < 1 + length xs. ([x] @ xs) ! j \<le> ([x] @ xs) ! argmax_from 0 x 1 xs) \<and>
         (\<forall>j < argmax_from 0 x 1 xs. ([x] @ xs) ! j < ([x] @ xs) ! argmax_from 0 x 1 xs)"
    by (rule argmax_from_spec) simp_all
  then show ?thesis by (simp add: row argmax_def)
qed

lemma layers_fwd_eval:
  "layers_fwd E False ls x r = (fst (layers_fwd E False ls x r0), r)"
  by (induction ls arbitrary: x) (auto simp: call_layer_def split: sum.splits)

lemma forward_eval:
  "\<not> training m \<Longrightarrow>
     GazelleModel_forward E m ids r = (fst (GazelleModel_forward E m ids r0), r)"
  using layers_fwd_eval[of E "layers m" _ r r0]
  by (auto simp: GazelleModel_forward_def split: sum.splits prod.splits)

lemma next_token_eval:
  "\<not> training m \<Longrightarrow> next_token E m ids r = (fst (next_token E m ids r0), r)"
  using forward_eval[of m E ids r r0]
  by (auto simp: next_token_def split: sum.splits prod.splits)

lemma gen_step_eval:
  "\<not> training m \<Longrightarrow> gen_step E m eos ids r = (fst (gen_step E m eos ids r0), r)"
  using next_token_eval[of m E ids r r0]
  by (auto simp: gen_step_def split: sum.splits prod.splits)

lemma gen_loop_eval:
  "\<not> training m \<Longrightarrow> gen_loop E m eos n ids r = (fst (gen_loop E m eos n ids r0), r)"
proof (induction n arbitrary: ids r r0)
  case 0
  then show ?case by simp
next
  case (Suc n)
  obtain res where step: "gen_step E m eos ids r0 = (res, r0)"
    using gen_step_eval[OF Suc.prems, of E eos ids r0 r0] by simp
  then have step': "gen_step E m eos ids r = (res, r)"
    using gen_step_eval[OF Suc.prems, of E eos ids r r0] by simp
  show ?case
  proof (cases res)
    case (Inl e)
    with step step' show ?thesis by simp
  next
    case (Inr p)
    obtain ids' stop where p: "p = (ids', stop)" by (cases p)
    show ?thesis
      using step step' Inr p Suc.IH[OF Suc.prems, of ids' r r0] by simp
  qed
qed

lemma gen_loop_trace:
  assumes "\<not> training m" "length toks = k" "k \<le> n"
    "\<forall>j<k. fst (next_token E m (ids @ take j toks) r) = Inr (toks ! j)"
    "\<forall>j<k. Suc j < k \<longrightarrow> Some (toks ! j) \<noteq> eos"
    "k = n \<or> (0 < k \<and> Some (toks ! (k - 1)) = eos)"
  shows "gen_loop E m eos n ids r = (Inr (ids @ toks), r)"
  using assms(2-)
proof (induction n arbitrary: ids toks k)
  case 0
  then show ?case by simp
next
  case (Suc n)
  from Suc.prems(1,5) obtain t ts where toks: "toks = t # ts"
    by (cases toks) auto
  from Suc.prems(3)[rule_format, of 0] toks Suc.prems(1)
  have "fst (next_token E m ids r) = Inr t" by auto
  with next_token_eval[OF assms(1), of E ids r r]
  have nt: "next_token E m ids r = (Inr t, r)" by simp
  show ?case
  proof (cases "Some t = eos")
    case True
    have "ts = []"
    proof (rule ccontr)
      assume "ts \<noteq> []"
      then have "Suc 0 < k" using toks Suc.prems(1) by (cases ts) auto
      with Suc.prems(4)[rule_format, of 0] toks True show False by auto
    qed
    with nt True toks show ?thesis by (simp add: gen_step_def)
  next
    case False
    have k: "k = Suc (length ts)" using toks Suc.prems(1) by simp
    have a: "length ts \<le> n" using k Suc.prems(2) by simp
    have b: "\<forall>j<length ts. fst (next_token E m ((ids @ [t]) @ take j ts) r) = Inr (ts ! j)"
    proof (intro allI impI)
      fix j assume "j < length ts"
      with Suc.prems(3)[rule_format, of "Suc j"] k toks
      show "fst (next_token E m ((ids @ [t]) @ take j ts) r) = Inr (ts ! j)" by simp
    qed
    have c: "\<forall>j<length ts. Suc j < length ts \<longrightarrow> Some (ts ! j) \<noteq> eos"
    proof (intro allI impI)
      fix j assume "j < length ts" "Suc j < length ts"
      with Suc.prems(4)[rule_format, of "Suc j"] k toks
      show "Some (ts ! j) \<noteq> eos" by simp
    qed
    have d: "length ts = n \<or> (0 < length ts \<and> Some (ts ! (length ts - 1)) = eos)"
    proof (cases "k = Suc n")
      case True
      with k show ?thesis by simp
    next
      case kn: False
      with Suc.prems(5) have e: "Some (toks ! (k - 1)) = eos" by simp
      have "ts \<noteq> []"
      proof
        assume "ts = []"
        with e toks k False show False by simp
      qed
      with e toks k show ?thesis by (cases ts) auto
    qed
    from Suc.IH[OF refl a b c d] nt False toks show ?thesis
      by (simp add: gen_step_def)
  qed
qed


lemma generate_ids_unfold:
  assumes "model st = Some m" "tokenizer st = Some tk" "tokenize tk prompt = Inr p"
  shows "generate_ids E prompt N st =
           (fst (gen_loop E (m\<lparr>training := False\<rparr>) (eos_token_id tk) (nat N) p (torch_rng st)),
            st\<lparr>model := Some (m\<lparr>training := False\<rparr>)\<rparr>)"
proof -
  have "\<not> training (m\<lparr>training := False\<rparr>)" by simp
  from gen_loop_eval[OF this, of E "eos_token_id tk" "nat N" p "torch_rng st" "torch_rng st"]
  show ?thesis using assms
    by (auto simp: generate_ids_def Let_def split: prod.splits)
qed

lemma toy_argmax:
  "argmax (toy_logits [int t]) = Inr ((t + 1) mod 4)"
proof -
  have "(t + 1) mod 4 = 0 \<or> (t + 1) mod 4 = 1 \<or> (t + 1) mod 4 = 2 \<or> (t + 1) mod 4 = 3"
    by presburger
  moreover have "(int t + 1) mod 4 = int ((t + 1) mod 4)"
    by (simp add: zmod_int add.commute)
  ultimately show ?thesis
    by (elim disjE) (simp_all add: toy_logits_def argmax_def)
qed

lemma toy_forward:
  "GazelleModel_forward (toy_env g) (toy_model\<lparr>training := False\<rparr>) ids r =
     (Inr (map (\<lambda>t. toy_logits [int t]) ids), r)"
  by (simp add: GazelleModel_forward_def toy_env_def toy_model_def call_layer_def comp_def)

lemma toy_next_token_val:
  "next_token (toy_env g) (toy_model\<lparr>training := False\<rparr>) (ids @ [t]) r = (Inr ((t + 1) mod 4), r)"
  by (simp add: next_token_def toy_forward last_position_def toy_argmax)

lemma toy_state_sel:
  "model (toy_state r) = Some toy_model" "tokenizer (toy_state r) = Some toy_tokenizer"
  "torch_rng (toy_state r) = r"
  by (simp_all add: toy_state_def fresh_kernel_def)

lemma generate_ids_cases:
  "generate_ids E prompt N st =
     (case model st of
        None \<Rightarrow> (Inl (NameError ''model''), st)
      | Some m \<Rightarrow>
          (case tokenizer st of
             None \<Rightarrow> (Inl (NameError ''tokenizer''), st\<lparr>model := Some (m\<lparr>training := False\<rparr>)\<rparr>)
           | Some tk \<Rightarrow>
               (case tokenize tk prompt of
                  Inl e \<Rightarrow> (Inl e, st\<lparr>model := Some (m\<lparr>training := False\<rparr>)\<rparr>)
                | Inr p \<Rightarrow>
                    (fst (gen_loop E (m\<lparr>training := False\<rparr>) (eos_token_id tk) (nat N) p
                            (torch_rng st)),
                     st\<lparr>model := Some (m\<lparr>training := False\<rparr>)\<rparr>))))"
proof (cases "model st")
  case None
  then show ?thesis by (simp add: generate_ids_def)
next
  case m: (Some m)
  show ?thesis
  proof (cases "tokenizer st")
    case None
    with m show ?thesis by (simp add: generate_ids_def)
  next
    case tk: (Some tk)
    show ?thesis
    proof (cases "tokenize tk prompt")
      case (Inl e)
      with m tk show ?thesis by (simp add: generate_ids_def)
    next
      case (Inr p)
      from generate_ids_unfold[OF m tk Inr, of E N] m tk Inr show ?thesis by simp
    qed
  qed
qed

lemma generate_result:
  "fst (generate E prompt N st) =
     (case model st of
        None \<Rightarrow> Inl (NameError ''model'')
      | Some m \<Rightarrow>
          (case tokenizer st of
             None \<Rightarrow> Inl (NameError ''tokenizer'')
           | Some tk \<Rightarrow>
               (case tokenize tk prompt of
                  Inl e \<Rightarrow> Inl e
                | Inr p \<Rightarrow>
                    map_sum id (decode tk)
                      (fst (gen_loop E (m\<lparr>training := False\<rparr>) (eos_token_id tk) (nat N) p
                             (torch_rng st))))))"
  unfolding generate_def generate_ids_cases
  by (simp split: option.split sum.split)

lemma generate_state:
  "snd (generate E prompt N st) = st\<lparr>model := map_option (\<lambda>m. m\<lparr>training := False\<rparr>) (model st)\<rparr>"
  unfolding generate_def generate_ids_cases
  by (simp split: option.split sum.split)

lemma train_step_updates:
  "updates (snd (train_step E i batch st)) =
     (if fst (train_step E i batch st) = None then Suc (updates st) else updates st)"
proof (cases "cuda batch")
  case (Inl e)
  then show ?thesis by (simp add: train_step_def)
next
  case b: (Inr b)
  show ?thesis
  proof (cases "model st")
  case None
  with b show ?thesis by (simp add: train_step_def)
next
  case m: (Some m)
  obtain res r' where fw: "GazelleModel_forward E m b (torch_rng st) = (res, r')"
    by (cases "GazelleModel_forward E m b (torch_rng st)")
  show ?thesis
  proof (cases res)
    case (Inl e)
    with b m fw show ?thesis by (simp add: train_step_def updates_def)
  next
    case lg: (Inr logits)
    show ?thesis
    proof (cases "cross_entropy E logits b")
      case (Inl e)
      with b m fw lg show ?thesis by (simp add: train_step_def updates_def)
    next
      case ce: (Inr loss)
      show ?thesis
      proof (cases "backward E m (torch_rng st) b b (grad st)")
        case (Inl e)
        with b m fw lg ce show ?thesis by (simp add: train_step_def updates_def)
      next
        case bw: (Inr g)
        show ?thesis
        proof (cases "optimizer st")
          case None
          with b m fw lg ce bw show ?thesis by (simp add: train_step_def updates_def)
        next
          case opt: (Some opt)
          show ?thesis
          proof (cases "AdamW_step E (moments opt) m (Some g)")
            case (Inl e)
            with b m fw lg ce bw opt show ?thesis by (simp add: train_step_def updates_def)
          next
            case (Inr mm)
            obtain m' mo' where mm: "mm = (m', mo')" by (cases mm)
            with b m fw lg ce bw opt Inr show ?thesis
              by (simp add: train_step_def updates_def Let_def)
          qed
        qed
      qed
    qed
  qed
qed
qed

lemma make_layers_fail:
  assumes "\<forall>d h r. h = 0 \<or> d mod h \<noteq> 0 \<longrightarrow> (\<exists>e. fst (nn_TransformerEncoderLayer E d h r) = Inl e)"
    and "0 < n" and "h = 0 \<or> d mod h \<noteq> 0"
  shows "\<exists>e. fst (make_layers E d h n r) = Inl e"
proof -
  from assms(2) obtain k where n: "n = Suc k" by (cases n) auto
  from assms(1,3) obtain e where "fst (nn_TransformerEncoderLayer E d h r) = Inl e" by blast
  then obtain r' where "nn_TransformerEncoderLayer E d h r = (Inl e, r')"
    by (cases "nn_TransformerEncoderLayer E d h r") auto
  with n show ?thesis by simp
qed

section \<open>The generation loop\<close>

text \<open>
  Claim C1. For every sequence \<open>ids\<close> the loop holds, one pass of the loop body runs the
  model on the whole of \<open>ids\<close>, takes the logits of the last position, and appends the
  index \<open>t\<close> of their maximum: no entry of that row is larger than entry \<open>t\<close>, and every
  entry before \<open>t\<close> is strictly smaller (the first maximum wins a tie). Nothing is
  sampled: \<open>t\<close> is a function of the row. The pass raises when the model returns no
  position or an empty row, which is why the theorem asks for a non-empty last row.
\<close>

theorem gen_step_greedy:
  assumes "GazelleModel_forward E m ids r = (Inr logits, r')"
    and "logits \<noteq> []" and "last logits \<noteq> []"
  shows "\<exists>t. gen_step E m eos ids r = (Inr (ids @ [t], Some t = eos), r') \<and>
              t < length (last logits) \<and>
              (\<forall>j < length (last logits). last logits ! j \<le> last logits ! t) \<and>
              (\<forall>j < t. last logits ! j < last logits ! t)"
proof -
  from argmax_spec[OF assms(3)] obtain t where t: "argmax (last logits) = Inr t"
    "t < length (last logits)" "\<forall>j < length (last logits). last logits ! j \<le> last logits ! t"
    "\<forall>j < t. last logits ! j < last logits ! t" by blast
  have "gen_step E m eos ids r = (Inr (ids @ [t], Some t = eos), r')"
    using assms(1,2) t(1) by (simp add: gen_step_def next_token_def last_position_def)
  with t(2,3,4) show ?thesis by blast
qed

theorem gen_step_greedy_witness:
  "GazelleModel_forward (toy_env True) toy_model [0, 1] 5 = (Inr [[0, 0, 1, 0], [0, 0, 0, 1]], 6) \<and>
   [[0, 0, 1, 0], [0, 0, 0, 1 :: int]] \<noteq> [] \<and> last [[0, 0, 1, 0], [0, 0, 0, 1 :: int]] \<noteq> [] \<and>
   (\<exists>t. gen_step (toy_env True) toy_model (Some 3) [0, 1] 5 = (Inr ([0, 1] @ [t], Some t = Some 3), 6) \<and> t < 4)"
proof -
  have h1: "GazelleModel_forward (toy_env True) toy_model [0, 1] 5 = (Inr [[0, 0, 1, 0], [0, 0, 0, 1]], 6)"
    by (simp add: GazelleModel_forward_def toy_env_def toy_model_def call_layer_def toy_logits_def)
  have h2: "[[0, 0, 1, 0], [0, 0, 0, 1 :: int]] \<noteq> []" by simp
  have h3: "last [[0, 0, 1, 0], [0, 0, 0, 1 :: int]] \<noteq> []" by simp
  from gen_step_greedy[OF h1 h2 h3, of "Some 3"] h1 show ?thesis by auto
qed

text \<open>
  Claim C2. Let \<open>p\<close> be the ids of the prompt, \<open>N\<close> the value of \<open>max_new_tokens\<close>, and
  \<open>toks\<close> the ids the model, in evaluation mode, yields one after the other along the
  decoding: \<open>toks ! j\<close> from \<open>p\<close> followed by the \<open>j\<close> ids before it. If there are
  \<open>N\<close> of them and none is the end-of-sequence id, then \<open>generate\<close> leaves its loop
  with \<open>p\<close> followed by exactly these \<open>N\<close> new ids (none for a negative \<open>N\<close>). Only
  the sequences the decoding passes through are constrained; what the model does on any
  other sequence does not matter.
\<close>

theorem generate_without_eos_makes_N_tokens:
  assumes "model st = Some m" and "tokenizer st = Some tk" and "tokenize tk prompt = Inr p"
    and "length toks = nat N"
    and "\<forall>j < nat N.
           fst (next_token E (m\<lparr>training := False\<rparr>) (p @ take j toks) (torch_rng st)) =
             Inr (toks ! j) \<and>
           Some (toks ! j) \<noteq> eos_token_id tk"
  shows "fst (generate_ids E prompt N st) = Inr (p @ toks) \<and>
         length (p @ toks) = length p + nat N"
proof -
  have e: "\<not> training (m\<lparr>training := False\<rparr>)" by simp
  have a: "\<forall>j<nat N. fst (next_token E (m\<lparr>training := False\<rparr>) (p @ take j toks) (torch_rng st)) =
             Inr (toks ! j)"
    using assms(5) by blast
  have b: "\<forall>j<nat N. Suc j < nat N \<longrightarrow> Some (toks ! j) \<noteq> eos_token_id tk"
    using assms(5) by blast
  have c: "nat N = nat N \<or> (0 < nat N \<and> Some (toks ! (nat N - 1)) = eos_token_id tk)"
    by simp
  from gen_loop_trace[OF e assms(4) le_refl a b c]
  have "gen_loop E (m\<lparr>training := False\<rparr>) (eos_token_id tk) (nat N) p (torch_rng st) =
          (Inr (p @ toks), torch_rng st)" .
  with generate_ids_unfold[OF assms(1,2,3), of E N] assms(4) show ?thesis by simp
qed

theorem generate_without_eos_makes_N_tokens_witness:
  "model (toy_state 7) = Some toy_model \<and> tokenizer (toy_state 7) = Some toy_tokenizer \<and>
   tokenize toy_tokenizer ''a'' = Inr [0] \<and> length [1, 2 :: nat] = nat 2 \<and>
   eos_token_id toy_tokenizer = Some 3 \<and>
   fst (generate_ids (toy_env True) ''a'' 2 (toy_state 7)) = Inr ([0] @ [1, 2]) \<and>
   length ([0] @ [1, 2 :: nat]) = length [0 :: nat] + nat 2"
proof -
  let ?m = "toy_model\<lparr>training := False\<rparr>"
  have h3: "tokenize toy_tokenizer ''a'' = Inr [0]"
    by (simp add: toy_tokenizer_def toy_ids_def)
  have h4: "length [1, 2 :: nat] = nat 2" by simp
  have eos: "eos_token_id toy_tokenizer = Some 3" by (simp add: toy_tokenizer_def)
  have s0: "fst (next_token (toy_env True) ?m ([0] @ take 0 [1, 2]) 7) = Inr ([1, 2] ! 0)"
    using toy_next_token_val[of True "[]" 0 7] by simp
  have s1: "fst (next_token (toy_env True) ?m ([0] @ take 1 [1, 2]) 7) = Inr ([1, 2] ! 1)"
    using toy_next_token_val[of True "[0]" 1 7] by simp
  have n0: "Some ([1, 2 :: nat] ! 0) \<noteq> eos_token_id toy_tokenizer" using eos by simp
  have n1: "Some ([1, 2 :: nat] ! 1) \<noteq> eos_token_id toy_tokenizer" using eos by simp
  have two: "j = 0 \<or> j = 1" if "j < nat 2" for j :: nat
    using that by arith
  have h5: "\<forall>j < nat 2.
           fst (next_token (toy_env True) ?m ([0] @ take j [1, 2]) (torch_rng (toy_state 7))) =
             Inr ([1, 2] ! j) \<and>
           Some ([1, 2] ! j) \<noteq> eos_token_id toy_tokenizer"
    using s0 s1 n0 n1 two unfolding toy_state_sel by blast
  from generate_without_eos_makes_N_tokens[OF toy_state_sel(1) toy_state_sel(2) h3 h4 h5]
    toy_state_sel(1,2)[of 7] h3 eos
  show ?thesis by simp
qed

text \<open>
  Claim C3. Steps are counted from 1: step \<open>j + 1\<close> is the pass that produces the new id
  \<open>toks ! j\<close> from the prompt ids \<open>p\<close> and the ids produced before it. If the ids
  produced at steps 1 to \<open>k - 1\<close> are not the end-of-sequence id, the id produced at
  step \<open>k\<close> is, and \<open>k\<close> does not exceed \<open>max_new_tokens\<close>, then the loop ends at step
  \<open>k\<close>: the result is \<open>p\<close> followed by these \<open>k\<close> ids, the end-of-sequence id included
  as the last one, so its length is the prompt length plus \<open>k\<close>.
\<close>

theorem generate_stops_at_first_eos:
  assumes "model st = Some m" and "tokenizer st = Some tk" and "tokenize tk prompt = Inr p"
    and "length toks = k" and "0 < k" and "k \<le> nat N"
    and "\<forall>j<k. fst (next_token E (m\<lparr>training := False\<rparr>) (p @ take j toks) (torch_rng st)) = Inr (toks ! j)"
    and "\<forall>j<k. Suc j < k \<longrightarrow> Some (toks ! j) \<noteq> eos_token_id tk"
    and "Some (toks ! (k - 1)) = eos_token_id tk"
  shows "fst (generate_ids E prompt N st) = Inr (p @ toks) \<and> length (p @ toks) = length p + k"
proof -
  have "\<not> training (m\<lparr>training := False\<rparr>)" by simp
  from gen_loop_trace[OF this assms(4) assms(6) assms(7) assms(8)] assms(5,9)
  have "gen_loop E (m\<lparr>training := False\<rparr>) (eos_token_id tk) (nat N) p (torch_rng st) = (Inr (p @ toks), torch_rng st)"
    by simp
  with generate_ids_unfold[OF assms(1,2,3), of E N] assms(4) show ?thesis by simp
qed

theorem generate_stops_at_first_eos_witness:
  "model (toy_state 7) = Some toy_model \<and> tokenizer (toy_state 7) = Some toy_tokenizer \<and>
   tokenize toy_tokenizer ''a'' = Inr [0] \<and> length [1, 2, 3 :: nat] = 3 \<and> (0 :: nat) < 3 \<and> 3 \<le> nat 5 \<and>
   Some ([1, 2, 3] ! (3 - 1)) = eos_token_id toy_tokenizer \<and>
   fst (generate_ids (toy_env True) ''a'' 5 (toy_state 7)) = Inr ([0] @ [1, 2, 3]) \<and>
   length ([0] @ [1, 2, 3 :: nat]) = length [0 :: nat] + 3"
proof -
  let ?m = "toy_model\<lparr>training := False\<rparr>"
  have h3: "tokenize toy_tokenizer ''a'' = Inr [0]"
    by (simp add: toy_tokenizer_def toy_ids_def)
  have h4: "length [1, 2, 3 :: nat] = 3" by simp
  have h5: "(0 :: nat) < 3" by simp
  have h6: "(3 :: nat) \<le> nat 5" by simp
  have s0: "fst (next_token (toy_env True) ?m ([0] @ take 0 [1, 2, 3]) 7) = Inr ([1, 2, 3] ! 0)"
    using toy_next_token_val[of True "[]" 0 7] by simp
  have s1: "fst (next_token (toy_env True) ?m ([0] @ take 1 [1, 2, 3]) 7) = Inr ([1, 2, 3] ! 1)"
    using toy_next_token_val[of True "[0]" 1 7] by simp
  have s2: "fst (next_token (toy_env True) ?m ([0] @ take 2 [1, 2, 3]) 7) = Inr ([1, 2, 3] ! 2)"
    using toy_next_token_val[of True "[0, 1]" 2 7] by (simp add: numeral_2_eq_2)
  have three: "j = 0 \<or> j = 1 \<or> j = 2" if "j < 3" for j :: nat
    using that by arith
  have h7: "\<forall>j<3. fst (next_token (toy_env True) ?m
                ([0] @ take j [1, 2, 3]) (torch_rng (toy_state 7))) = Inr ([1, 2, 3] ! j)"
    using s0 s1 s2 three unfolding toy_state_sel by blast
  have n0: "Some ([1, 2, 3 :: nat] ! 0) \<noteq> eos_token_id toy_tokenizer"
    by (simp add: toy_tokenizer_def)
  have n1: "Some ([1, 2, 3 :: nat] ! 1) \<noteq> eos_token_id toy_tokenizer"
    by (simp add: toy_tokenizer_def)
  have two: "j = 0 \<or> j = 1" if "Suc j < 3" for j :: nat
    using that by arith
  have h8: "\<forall>j<3. Suc j < 3 \<longrightarrow> Some ([1, 2, 3 :: nat] ! j) \<noteq> eos_token_id toy_tokenizer"
    using n0 n1 two by blast
  have h9: "Some ([1, 2, 3] ! (3 - 1)) = eos_token_id toy_tokenizer"
    by (simp add: toy_tokenizer_def numeral_3_eq_3)
  from generate_stops_at_first_eos[OF toy_state_sel(1) toy_state_sel(2) h3 h4 h5 h6 h7 h8 h9]
    toy_state_sel(1,2)[of 7] h3 h9
  show ?thesis by simp
qed

text \<open>
  Claim C5. Two runs of \<open>generate\<close> on the same prompt and the same number of new
  tokens, from two interpreter states that hold the same weights and the same tokenizer,
  leave the loop with the same sequence of token ids, and so return the same text (or
  raise the same exception). The states may differ in everything else: the state of the
  random generators, the mode flag of the model, the stored gradients, the output
  printed so far. The library operations are functions here; a run-to-run difference of
  the device's floating-point kernels is outside the model.
\<close>

theorem generate_deterministic:
  assumes "map_option weights (model st1) = map_option weights (model st2)"
    and "tokenizer st1 = tokenizer st2"
  shows "fst (generate_ids E prompt N st1) = fst (generate_ids E prompt N st2) \<and>
         fst (generate E prompt N st1) = fst (generate E prompt N st2)"
proof (cases "model st1")
  case None
  with assms(1) have "model st2 = None" by simp
  with None show ?thesis by (simp add: generate_result generate_ids_cases)
next
  case (Some m1)
  with assms(1) obtain m2 where m2: "model st2 = Some m2" "weights m1 = weights m2"
    by (cases "model st2") auto
  have eq: "m1\<lparr>training := False\<rparr> = m2\<lparr>training := False\<rparr>"
    using m2(2) by (cases m1; cases m2) (simp add: weights_def)
  have e: "\<not> training (m2\<lparr>training := False\<rparr>)" by simp
  have loop: "fst (gen_loop E (m2\<lparr>training := False\<rparr>) eos n p (torch_rng st1)) =
        fst (gen_loop E (m2\<lparr>training := False\<rparr>) eos n p (torch_rng st2))" for eos n p
    using gen_loop_eval[OF e, of E eos n p "torch_rng st1" "torch_rng st2"] by simp
  show ?thesis
  proof (cases "tokenizer st2")
    case None
    with Some m2(1) assms(2) show ?thesis by (simp add: generate_result generate_ids_cases)
  next
    case tk: (Some tk)
    show ?thesis
    proof (cases "tokenize tk prompt")
      case (Inl e)
      with Some m2(1) assms(2) tk show ?thesis by (simp add: generate_result generate_ids_cases)
    next
      case (Inr p)
      with Some m2(1) assms(2) tk eq loop[of "eos_token_id tk" "nat N" p]
      show ?thesis by (simp add: generate_result generate_ids_cases)
    qed
  qed
qed

theorem generate_deterministic_witness:
  "map_option weights (model (toy_state 7)) =
     map_option weights (model ((toy_state 99)\<lparr>model := Some (toy_model\<lparr>training := False\<rparr>), grad := Some 1\<rparr>)) \<and>
   tokenizer (toy_state 7) =
     tokenizer ((toy_state 99)\<lparr>model := Some (toy_model\<lparr>training := False\<rparr>), grad := Some 1\<rparr>) \<and>
   torch_rng (toy_state 7) = 7 \<and>
   torch_rng ((toy_state 99)\<lparr>model := Some (toy_model\<lparr>training := False\<rparr>), grad := Some 1\<rparr>) = 99 \<and>
   fst (generate_ids (toy_env True) ''a'' 5 (toy_state 7)) = Inr [0, 1, 2, 3] \<and>
   fst (generate_ids (toy_env True) ''a'' 5
            ((toy_state 99)\<lparr>model := Some (toy_model\<lparr>training := False\<rparr>), grad := Some 1\<rparr>)) =
     Inr [0, 1, 2, 3] \<and>
   fst (generate (toy_env True) ''a'' 5 (toy_state 7)) = Inr ''abc.'' \<and>
   fst (generate (toy_env True) ''a'' 5
            ((toy_state 99)\<lparr>model := Some (toy_model\<lparr>training := False\<rparr>), grad := Some 1\<rparr>)) = Inr ''abc.''"
proof -
  let ?st2 = "(toy_state 99)\<lparr>model := Some (toy_model\<lparr>training := False\<rparr>), grad := Some 1\<rparr>"
  have h1: "map_option weights (model (toy_state 7)) = map_option weights (model ?st2)"
    by (simp add: toy_state_sel weights_def)
  have h2: "tokenizer (toy_state 7) = tokenizer ?st2"
    by (simp add: toy_state_sel)
  have v: "fst (generate (toy_env True) ''a'' 5 (toy_state 7)) = Inr ''abc.''"
    by code_simp
  have w: "fst (generate_ids (toy_env True) ''a'' 5 (toy_state 7)) = Inr [0, 1, 2, 3]"
    by code_simp
  from generate_deterministic[OF h1 h2, of "toy_env True" "''a''" 5] h1 h2 v w
  show ?thesis by (simp add: toy_state_sel)
qed

text \<open>
  Claim C9. \<open>generate\<close> changes the interpreter state in one place only: the mode flag
  of the model is cleared by \<open>model.eval()\<close> (and stays cleared after the call). The
  weights of the model, the stored gradients and the optimizer are the same before and
  after, whether the call returns or raises.
\<close>

theorem generate_leaves_parameters:
  "snd (generate E prompt N st) = st\<lparr>model := map_option (\<lambda>m. m\<lparr>training := False\<rparr>) (model st)\<rparr> \<and>
   map_option weights (model (snd (generate E prompt N st))) = map_option weights (model st) \<and>
   grad (snd (generate E prompt N st)) = grad st \<and>
   optimizer (snd (generate E prompt N st)) = optimizer st"
  by (cases "model st") (simp_all add: generate_state weights_def)

theorem generate_leaves_parameters_witness:
  "model (snd (generate (toy_env True) ''a'' 5 (toy_state 7))) = Some (toy_model\<lparr>training := False\<rparr>) \<and>
   map_option weights (model (snd (generate (toy_env True) ''a'' 5 (toy_state 7)))) = Some (0, [1], 2, 3)"
  using generate_leaves_parameters[of "toy_env True" "''a''" 5 "toy_state 7"]
  by (simp add: toy_state_sel weights_def toy_model_def)



section \<open>The training loop\<close>




text \<open>
  Claim C6, as the code has it. With \<open>n\<close> batches in the loader and the threshold \<open>cap\<close>
  in the test \<open>i > cap\<close>, the loop started at index \<open>i\<close> always ends, by a recursion
  over the finite list of batches, and has then made at most \<open>min n (cap + 1 - i)\<close>
  optimizer updates: never more than \<open>cap + 1\<close> from index 0, whatever the size of the
  dataset, and never more than the dataset has batches. It ends without an exception
  exactly when it has made that many. Each batch consumed costs one update or ends the
  loop with the exception of its step.
\<close>

theorem train_loop_update_count:
  "updates (snd (train_loop E cap i batches st)) \<le>
     updates st + min (length batches) (nat (cap + 1 - int i)) \<and>
   ((fst (train_loop E cap i batches st) = None) =
      (updates (snd (train_loop E cap i batches st)) =
         updates st + min (length batches) (nat (cap + 1 - int i))))"
proof (induction batches arbitrary: i st)
  case Nil
  then show ?case by simp
next
  case (Cons b bs)
  show ?case
  proof (cases "int i > cap")
    case True
    then show ?thesis by simp
  next
    case False
    obtain res st' where ts: "train_step E i b st = (res, st')"
      by (cases "train_step E i b st")
    have n: "nat (cap + 1 - int i) = Suc (nat (cap + 1 - int (Suc i)))"
      using False by simp
    show ?thesis
    proof (cases res)
      case None
      with train_step_updates[of E i b st] ts have u: "updates st' = Suc (updates st)" by simp
      from Cons.IH[of "Suc i" st'] None ts False u n show ?thesis by simp
    next
      case (Some e)
      with train_step_updates[of E i b st] ts have u: "updates st' = updates st" by simp
      with Some ts False n show ?thesis by simp
    qed
  qed
qed

theorem train_loop_update_count_witness:
  "updates toy_train_state = 0 \<and>
   length (DataLoader [[0, 1], [1, 2], [2, 3]]) = 3 \<and>
   fst (train_loop (toy_env True) 10 0 (DataLoader [[0, 1], [1, 2], [2, 3]]) toy_train_state) =
     Some (AttributeError ''cuda'') \<and>
   updates (snd (train_loop (toy_env True) 10 0 (DataLoader [[0, 1], [1, 2], [2, 3]]) toy_train_state)) \<le> 3 \<and>
   updates (snd (train_loop (toy_env True) 10 0 (DataLoader [[0, 1], [1, 2], [2, 3]]) toy_train_state)) \<noteq> 3"
proof -
  have u: "updates toy_train_state = 0" by code_simp
  have l: "length (DataLoader [[0, 1], [1, 2], [2, 3]]) = 3" by (simp add: DataLoader_def)
  have f: "fst (train_loop (toy_env True) 10 0 (DataLoader [[0, 1], [1, 2], [2, 3]]) toy_train_state) =
     Some (AttributeError ''cuda'')"
    by (simp add: DataLoader_def train_step_def cuda_def)
  from train_loop_update_count[of "toy_env True" 10 0 "DataLoader [[0, 1], [1, 2], [2, 3]]" toy_train_state]
    u l f
  show ?thesis by simp
qed

text \<open>
  The claim fails on an empty dataset, where the loop returns at once with no update, and
  on the batches as the notebook's loader yields them, where the first step raises and no
  update is made; the threshold is the notebook's 10 in both.
\<close>

theorem train_loop_counterexample:
  "train_loop (toy_env True) 10 0 (DataLoader []) toy_train_state = (None, toy_train_state) \<and>
   train_loop (toy_env True) 10 0 (DataLoader [[0, 1], [1, 2], [2, 3]]) toy_train_state =
     (Some (AttributeError ''cuda''), toy_train_state) \<and>
   updates toy_train_state = 0"
proof -
  have u: "updates toy_train_state = 0" by code_simp
  then show ?thesis by (simp add: DataLoader_def train_step_def cuda_def)
qed

section \<open>Construction and the environment guard\<close>

text \<open>
  Claim C7. For a configuration with at least one layer, as the data model requires,
  whose head count is zero or does not divide the width, constructing the model raises
  and no model is built. The notebook's own code compares nothing: the check is the one
  the library's encoder-layer constructor makes, taken here as its contract (it raises
  on such a pair), and the first layer is constructed right after the embedding.
\<close>

theorem init_fails_on_indivisible_heads:
  assumes "\<forall>d h r. h = 0 \<or> d mod h \<noteq> 0 \<longrightarrow> (\<exists>e. fst (nn_TransformerEncoderLayer E d h r) = Inl e)"
    and "0 < n_layer cfg"
    and "n_head cfg = 0 \<or> n_embd cfg mod n_head cfg \<noteq> 0"
  shows "\<exists>e. fst (GazelleModel_init E cfg r) = Inl e"
proof -
  obtain res r1 where emb: "nn_Embedding E (vocab_size cfg) (n_embd cfg) r = (res, r1)"
    by (cases "nn_Embedding E (vocab_size cfg) (n_embd cfg) r")
  show ?thesis
  proof (cases res)
    case (Inl e)
    with emb show ?thesis by (simp add: GazelleModel_init_def)
  next
    case (Inr m)
    from assms(2) have "0 < nat (n_layer cfg)" by simp
    from make_layers_fail[OF assms(1) this assms(3), of r1] obtain e
      where "fst (make_layers E (n_embd cfg) (n_head cfg) (nat (n_layer cfg)) r1) = Inl e" by blast
    then obtain r2 where "make_layers E (n_embd cfg) (n_head cfg) (nat (n_layer cfg)) r1 = (Inl e, r2)"
      by (cases "make_layers E (n_embd cfg) (n_head cfg) (nat (n_layer cfg)) r1") auto
    with emb Inr show ?thesis by (simp add: GazelleModel_init_def)
  qed
qed

theorem init_fails_on_indivisible_heads_witness:
  "0 < n_layer toy_bad_config \<and> n_embd toy_bad_config mod n_head toy_bad_config = 1 \<and>
   fst (GazelleModel_init (toy_env True) toy_bad_config 0) =
     Inl (AssertionError ''embed_dim must be divisible by num_heads'')"
proof -
  have h1: "\<forall>d h r. h = 0 \<or> d mod h \<noteq> 0 \<longrightarrow>
              (\<exists>e. fst (nn_TransformerEncoderLayer (toy_env True) d h r) = Inl e)"
    by (simp add: toy_env_def)
  have h2: "0 < n_layer toy_bad_config"
    by (simp add: toy_bad_config_def GazelleConfig_default_def)
  have m: "n_embd toy_bad_config mod n_head toy_bad_config = 1"
    by (simp add: toy_bad_config_def)
  then have h3: "n_head toy_bad_config = 0 \<or> n_embd toy_bad_config mod n_head toy_bad_config \<noteq> 0"
    by simp
  have v: "fst (GazelleModel_init (toy_env True) toy_bad_config 0) =
     Inl (AssertionError ''embed_dim must be divisible by num_heads'')"
    by code_simp
  from init_fails_on_indivisible_heads[OF h1 h2 h3, of 0] h2 m v show ?thesis by simp
qed

text \<open>
  Claim C8. Without a device the guard raises \<open>RuntimeError('GPU required')\<close> and
  changes nothing, and the run of the notebook ends there, in the state it started from:
  no dataset is loaded, no model or tokenizer is built, nothing is tokenized or printed.
  With a device the guard raises nothing and leaves both generators of the state, the
  tensor library's and the array library's, in the state that seeding with 42 gives,
  whatever they were before.
\<close>

theorem env_guard_fail_fast:
  "(\<not> cuda_is_available E \<longrightarrow>
      env_guard E st = (Some (RuntimeError ''GPU required''), st) \<and>
      notebook E st = (Some (RuntimeError ''GPU required''), st)) \<and>
   (cuda_is_available E \<longrightarrow>
      fst (env_guard E st) = None \<and>
      torch_rng (snd (env_guard E st)) = torch_manual_seed E 42 \<and>
      numpy_rng (snd (env_guard E st)) = np_random_seed E 42)"
  by (simp add: env_guard_def notebook_def)

theorem env_guard_fail_fast_witness:
  "cuda_is_available (toy_env True) \<and> \<not> cuda_is_available (toy_env False) \<and>
   notebook (toy_env False) (fresh_kernel 5 6) = (Some (RuntimeError ''GPU required''), fresh_kernel 5 6) \<and>
   model (snd (notebook (toy_env False) (fresh_kernel 5 6))) = None \<and>
   dataset (snd (notebook (toy_env False) (fresh_kernel 5 6))) = None \<and>
   dataset_enc (snd (notebook (toy_env False) (fresh_kernel 5 6))) = None \<and>
   tokenizer (snd (notebook (toy_env False) (fresh_kernel 5 6))) = None \<and>
   fst (env_guard (toy_env True) (fresh_kernel 5 6)) = None \<and>
   torch_rng (snd (env_guard (toy_env True) (fresh_kernel 5 6))) = 42 \<and>
   numpy_rng (snd (env_guard (toy_env True) (fresh_kernel 5 6))) = 42"
proof -
  have a: "cuda_is_available (toy_env True)" by (simp add: toy_env_def)
  have b: "\<not> cuda_is_available (toy_env False)" by (simp add: toy_env_def)
  have s: "torch_manual_seed (toy_env True) 42 = 42" "np_random_seed (toy_env True) 42 = 42"
    by (simp_all add: toy_env_def)
  from env_guard_fail_fast[of "toy_env False" "fresh_kernel 5 6"]
    env_guard_fail_fast[of "toy_env True" "fresh_kernel 5 6"] a b s
  show ?thesis by (simp add: fresh_kernel_def)
qed

end
